theory Spec2Isabelle
  imports Main
begin

section \<open>Values, exceptions and settings\<close>

text \<open>
  The module \<open>app/services/auth.py\<close> is embedded function by function. Every \<open>async def\<close>
  is a plain function: nothing in the module awaits anything but its own methods. A method
  that raises returns \<open>Inl\<close> of the exception; a method that writes to the database session
  returns the session it leaves behind.

  A claims dictionary maps string keys to values. The values the module itself stores are
  strings (the e-mail, the scope tag) and instants (\<open>iat\<close>, \<open>exp\<close>); \<open>JNone\<close> is Python's
  \<open>None\<close>, which \<open>Auth.__call__\<close> tests for.

  Instants are integers counting microseconds, the resolution of \<open>datetime\<close>; a TTL is a
  whole number of minutes (the source's \<open>Optional[float]\<close> restricted to integral values).
\<close>

datatype jvalue = JNone | JStr string | JTime int

type_synonym payload = "string \<rightharpoonup> jvalue"

datatype exn =
    HTTPException (status_code: nat) (detail: string) (headers: "(string \<times> string) list option")
  | KeyError string
  | JWTError string
  | OtherError string

definition HTTP_401_UNAUTHORIZED :: nat where
  "HTTP_401_UNAUTHORIZED = 401"

definition HTTP_404_NOT_FOUND :: nat where
  "HTTP_404_NOT_FOUND = 404"

text \<open>\<open>isinstance(e, JWTError)\<close>: the exception class the deployed coder is built with.\<close>

fun is_JWTError :: "exn \<Rightarrow> bool" where
  "is_JWTError (JWTError _) = True"
| "is_JWTError _ = False"

datatype TokenScopes = ACCESS | REFRESH

fun scope_value :: "TokenScopes \<Rightarrow> string" where
  "scope_value ACCESS = ''access_token''"
| "scope_value REFRESH = ''refresh_token''"

text \<open>
  \<open>app.settings.TokenSettings\<close> is not part of the module; the record holds the four
  attributes the module reads from it.
\<close>

record TokenSettings =
  ALGORITHM :: string
  DEFAULT_EXPIRED :: int
  ACCESS_EXPIRED :: int
  REFRESH_EXPIRED :: int

definition timedelta :: "int \<Rightarrow> int" where
  \<comment> \<open>\<open>timedelta(minutes=m)\<close> in microseconds\<close>
  "timedelta m = m * 60000000"

text \<open>Python truthiness of an \<open>Optional\<close> number: \<open>None\<close> and \<open>0\<close> are falsy.\<close>

fun truthy :: "int option \<Rightarrow> bool" where
  "truthy None = False"
| "truthy (Some d) = (d \<noteq> 0)"

text \<open>\<open>a or b\<close> on such values: \<open>a\<close> when it is truthy, \<open>b\<close> otherwise.\<close>

definition py_or :: "int option \<Rightarrow> int option \<Rightarrow> int option" where
  "py_or a b = (if truthy a then a else b)"

section \<open>Password\<close>

text \<open>
  \<open>passlib\<close>'s \<open>CryptContext\<close> is injected; \<open>ctx_verify\<close> is its \<open>verify\<close> method, which
  returns a boolean or raises. (\<open>hash\<close> is salted and no property below depends on it.)
\<close>

record CryptContext =
  ctx_verify :: "string \<Rightarrow> string \<Rightarrow> exn + bool"

record Password =
  pwd_context :: CryptContext

definition verify :: "Password \<Rightarrow> string \<Rightarrow> string \<Rightarrow> exn + bool" where
  "verify self password hash = ctx_verify (pwd_context self) password hash"

section \<open>TokenCoder and Token\<close>

text \<open>
  \<open>TokenCoder\<close> carries the two callables and the exception class that \<open>Token.decode\<close>
  catches. The decoder reads the system clock to check \<open>exp\<close>, so the instant of the call
  is its first argument here. \<open>coder_error e\<close> is \<open>isinstance(e, self.coder.error)\<close>.
\<close>

record TokenCoder =
  coder_encode :: "payload \<Rightarrow> string \<Rightarrow> string \<Rightarrow> string"
  coder_decode :: "int \<Rightarrow> string \<Rightarrow> string \<Rightarrow> string list \<Rightarrow> exn + payload"
  coder_error :: "exn \<Rightarrow> bool"

record Token =
  config :: TokenSettings
  coder :: TokenCoder
  secret :: string

text \<open>The dictionary \<open>Token.create\<close> returns (\<open>schemas.TokenModel\<close>).\<close>

record TokenModel =
  token :: string
  expired_at :: int
  scope :: string

definition expired :: "Token \<Rightarrow> int \<Rightarrow> int option \<Rightarrow> int" where
  \<comment> \<open>line 46 of the module\<close>
  "expired self now expires_delta =
     (if truthy expires_delta then now + timedelta (the expires_delta)
      else now + timedelta (DEFAULT_EXPIRED (config self)))"

definition to_encode_data :: "Token \<Rightarrow> int \<Rightarrow> payload \<Rightarrow> TokenScopes \<Rightarrow> int option \<Rightarrow> payload" where
  \<comment> \<open>the copy of \<open>data\<close> after \<open>update\<close>, lines 44 to 47\<close>
  "to_encode_data self now data sc expires_delta =
     data(''iat'' \<mapsto> JTime now,
          ''exp'' \<mapsto> JTime (expired self now expires_delta),
          ''scope'' \<mapsto> JStr (scope_value sc))"

definition create :: "Token \<Rightarrow> int \<Rightarrow> payload \<Rightarrow> TokenScopes \<Rightarrow> int option \<Rightarrow> TokenModel" where
  "create self now data sc expires_delta =
     \<lparr> token = coder_encode (coder self) (to_encode_data self now data sc expires_delta)
                  (secret self) (ALGORITHM (config self)),
       expired_at = expired self now expires_delta,
       scope = scope_value sc \<rparr>"

text \<open>
  The body of the \<open>try\<close> block of \<open>Token.decode\<close>: the coder's own exception, a
  \<open>KeyError\<close> when the payload has no \<open>scope\<close> entry, or the scope exception.
\<close>

definition decode_try :: "Token \<Rightarrow> int \<Rightarrow> string \<Rightarrow> TokenScopes \<Rightarrow> exn + payload" where
  "decode_try self now tok sc =
     (case coder_decode (coder self) now tok (secret self) [ALGORITHM (config self)] of
        Inl e \<Rightarrow> Inl e
      | Inr payload \<Rightarrow>
          (case payload ''scope'' of
             None \<Rightarrow> Inl (KeyError ''scope'')
           | Some v \<Rightarrow>
               if v = JStr (scope_value sc) then Inr payload
               else Inl (HTTPException HTTP_401_UNAUTHORIZED ''Invalid scope for token'' None)))"

text \<open>The \<open>except self.coder.error\<close> clause: what it does not catch propagates.\<close>

definition decode :: "Token \<Rightarrow> int \<Rightarrow> string \<Rightarrow> TokenScopes \<Rightarrow> exn + payload" where
  "decode self now tok sc =
     (case decode_try self now tok sc of
        Inl e \<Rightarrow>
          if coder_error (coder self) e
          then Inl (HTTPException HTTP_401_UNAUTHORIZED ''Could not validate credentials'' None)
          else Inl e
      | Inr payload \<Rightarrow> Inr payload)"

definition create_access :: "Token \<Rightarrow> int \<Rightarrow> payload \<Rightarrow> int option \<Rightarrow> TokenModel" where
  "create_access self now data expires_delta =
     create self now data ACCESS (py_or expires_delta (Some (ACCESS_EXPIRED (config self))))"

definition create_refresh :: "Token \<Rightarrow> int \<Rightarrow> payload \<Rightarrow> int option \<Rightarrow> TokenModel" where
  "create_refresh self now data expires_delta =
     create self now data REFRESH (py_or expires_delta (Some (REFRESH_EXPIRED (config self))))"

definition decode_access :: "Token \<Rightarrow> int \<Rightarrow> string \<Rightarrow> exn + payload" where
  "decode_access self now tok = decode self now tok ACCESS"

definition decode_refresh :: "Token \<Rightarrow> int \<Rightarrow> string \<Rightarrow> exn + payload" where
  "decode_refresh self now tok = decode self now tok REFRESH"

section \<open>The database session\<close>

text \<open>
  \<open>users.models\<close> is not part of the module. A user row has a primary key, the two
  unique names \<open>__get_user\<close> filters on, and the password digest \<open>validate\<close> reads.
\<close>

record User =
  uid :: nat
  username :: string
  email :: string
  password :: string

text \<open>
  Modelled from the spec: the refresh-token row of \<open>users.models.Token\<close>, which the module
  only uses. The spec gives it one opaque token string, an expiry and a reference to the
  owning user; the module filters on the string as \<open>refresh\<close> and passes it to the
  constructor as \<open>token\<close>, and both are the one field \<open>row_refresh\<close> here. \<open>user_id\<close> is the
  foreign key behind the \<open>user\<close> relationship, empty until the row is appended to a user's
  \<open>tokens\<close>.
\<close>

record TokenDBModel =
  row_refresh :: string
  row_expired_at :: int
  user_id :: "nat option"

text \<open>
  The session is the rows it holds and the journal of the writes issued on it, oldest
  first. Only \<open>delete\<close>, the append to \<open>user.tokens\<close> and \<open>commit\<close> are ever called.
\<close>

datatype db_op = Delete TokenDBModel | Append nat TokenDBModel | Commit

record Session =
  users :: "User list"
  tokens :: "TokenDBModel list"
  journal :: "db_op list"

definition db_delete :: "TokenDBModel \<Rightarrow> Session \<Rightarrow> Session" where
  "db_delete r db = db\<lparr> tokens := remove1 r (tokens db), journal := journal db @ [Delete r] \<rparr>"

definition db_commit :: "Session \<Rightarrow> Session" where
  "db_commit db = db\<lparr> journal := journal db @ [Commit] \<rparr>"

definition tokens_append :: "User \<Rightarrow> TokenDBModel \<Rightarrow> Session \<Rightarrow> Session" where
  \<comment> \<open>\<open>user.tokens.append(token)\<close>: the row takes the user's key and joins the session\<close>
  "tokens_append user r db =
     db\<lparr> tokens := tokens db @ [r\<lparr> user_id := Some (uid user) \<rparr>],
         journal := journal db @ [Append (uid user) r] \<rparr>"

definition find_token :: "string \<Rightarrow> Session \<Rightarrow> TokenDBModel option" where
  \<comment> \<open>\<open>db.query(TokensModel).filter(TokensModel.refresh == s).first()\<close>\<close>
  "find_token s db = find (\<lambda>r. row_refresh r = s) (tokens db)"

section \<open>Auth\<close>

record OAuth2PasswordRequestForm =
  form_username :: string
  form_password :: string

record Auth =
  auth_password :: Password
  auth_token :: Token

definition not_found_error :: exn where
  "not_found_error = HTTPException HTTP_404_NOT_FOUND ''User not found'' None"

definition invalid_credential_error :: exn where
  "invalid_credential_error =
     HTTPException HTTP_401_UNAUTHORIZED ''Invalid username or password'' None"

definition invalid_refresh_token_error :: exn where
  "invalid_refresh_token_error =
     HTTPException HTTP_401_UNAUTHORIZED ''Invalid refresh token'' None"

definition credentionals_exception :: exn where
  "credentionals_exception =
     HTTPException HTTP_401_UNAUTHORIZED ''Could not validate credentials''
       (Some [(''WWW-Authenticate'', ''Bearer'')])"

text \<open>
  \<open>__get_user\<close> compares both name columns with whatever value it is given; a value that
  is not a string equals neither.
\<close>

definition get_user :: "jvalue \<Rightarrow> Session \<Rightarrow> User option" where
  "get_user name db = find (\<lambda>u. JStr (email u) = name \<or> JStr (username u) = name) (users db)"

definition validate :: "Auth \<Rightarrow> User option \<Rightarrow> OAuth2PasswordRequestForm \<Rightarrow> exn + bool" where
  "validate self user credentials =
     (case user of
        None \<Rightarrow> Inr False
      | Some u \<Rightarrow>
          (case verify (auth_password self) (form_password credentials) (password u) of
             Inl e \<Rightarrow> Inl e
           | Inr ok \<Rightarrow> if \<not> ok then Inr False else Inr True))"

text \<open>The dictionary \<open>__generate_tokens\<close> returns (\<open>schemas.TokenPairModel\<close>).\<close>

record TokenRef =
  ref_token :: string
  ref_expired_at :: int

record TokenPairModel =
  pair_access :: TokenRef
  pair_refresh :: TokenRef
  pair_type :: string

text \<open>
  \<open>__generate_tokens\<close> reads the clock twice, once in each \<open>create\<close>: \<open>now_a\<close> and \<open>now_r\<close>.
\<close>

definition generate_tokens ::
  "Auth \<Rightarrow> int \<Rightarrow> int \<Rightarrow> User \<Rightarrow> Session \<Rightarrow> TokenPairModel \<times> Session" where
  "generate_tokens self now_a now_r user db =
     (let access_token =
            create_access (auth_token self) now_a [''email'' \<mapsto> JStr (email user)] None;
          refresh_token =
            create_refresh (auth_token self) now_r [''email'' \<mapsto> JStr (email user)] None;
          row = \<lparr> row_refresh = token refresh_token,
                  row_expired_at = expired_at refresh_token,
                  user_id = None \<rparr>
      in (\<lparr> pair_access = \<lparr> ref_token = token access_token,
                            ref_expired_at = expired_at access_token \<rparr>,
            pair_refresh = \<lparr> ref_token = token refresh_token,
                             ref_expired_at = expired_at refresh_token \<rparr>,
            pair_type = ''bearer'' \<rparr>,
          db_commit (tokens_append user row db)))"

text \<open>
  \<open>Auth.refresh\<close>. \<open>now_d\<close> is the instant of the decode. The row comparison
  \<open>refres_token.user != user\<close> is identity of rows, that is, of primary keys.
\<close>

definition refresh ::
  "Auth \<Rightarrow> int \<Rightarrow> int \<Rightarrow> int \<Rightarrow> string \<Rightarrow> Session \<Rightarrow> (exn + TokenPairModel) \<times> Session" where
  "refresh self now_d now_a now_r refres_token_str db =
     (case decode_refresh (auth_token self) now_d refres_token_str of
        Inl e \<Rightarrow> (Inl e, db)
      | Inr payload \<Rightarrow>
          (let refres_token = find_token refres_token_str db in
           case payload ''email'' of
             None \<Rightarrow> (Inl (KeyError ''email''), db)
           | Some name \<Rightarrow>
               (let user = get_user name db;
                    db1 = (case refres_token of
                             Some r \<Rightarrow> db_commit (db_delete r db)
                           | None \<Rightarrow> db)
                in case (user, refres_token) of
                     (Some u, Some r) \<Rightarrow>
                       if user_id r \<noteq> Some (uid u) then (Inl credentionals_exception, db1)
                       else (case generate_tokens self now_a now_r u db1 of
                               (pair, db2) \<Rightarrow> (Inr pair, db2))
                   | _ \<Rightarrow> (Inl credentionals_exception, db1))))"

definition authenticate ::
  "Auth \<Rightarrow> int \<Rightarrow> int \<Rightarrow> OAuth2PasswordRequestForm \<Rightarrow> Session
     \<Rightarrow> (exn + TokenPairModel) \<times> Session" where
  "authenticate self now_a now_r credentials db =
     (let user = get_user (JStr (form_username credentials)) db in
      case validate self user credentials of
        Inl e \<Rightarrow> (Inl e, db)
      | Inr ok \<Rightarrow>
          if \<not> ok then (Inl invalid_credential_error, db)
          else (case user of
                  Some u \<Rightarrow> (case generate_tokens self now_a now_r u db of
                               (pair, db') \<Rightarrow> (Inr pair, db'))
                | None \<Rightarrow> (Inl (OtherError ''AttributeError''), db)))"

definition logout :: "Auth \<Rightarrow> string \<Rightarrow> Session \<Rightarrow> unit \<times> Session" where
  "logout self token_str db = ((), db)"

text \<open>\<open>Auth.__call__\<close>, the resolution of a bearer token to its user.\<close>

definition call :: "Auth \<Rightarrow> int \<Rightarrow> string \<Rightarrow> Session \<Rightarrow> exn + User" where
  "call self now tok db =
     (case decode_access (auth_token self) now tok of
        Inl e \<Rightarrow> Inl e
      | Inr pyload \<Rightarrow>
          (case pyload ''email'' of
             None \<Rightarrow> Inl (KeyError ''email'')
           | Some name \<Rightarrow>
               if name = JNone then Inl credentionals_exception
               else (case get_user name db of
                       None \<Rightarrow> Inl not_found_error
                     | Some user \<Rightarrow> Inr user)))"

section \<open>Test doubles\<close>

text \<open>
  Concrete inputs on which the properties below are exercised. The stub coder signs
  nothing: a token is the scope, the e-mail and the issue instant (in unary) of its
  claims, and decoding looks the token up in a table of claims, raising a \<open>JWTError\<close> for
  an unknown token or one whose \<open>exp\<close> lies before the instant of the call. Its exception
  class is \<open>JWTError\<close>, as for the module's own \<open>auth\<close> object. The stub context
  verifies digests of the form \<open>$2b$\<close> followed by the password and raises on any string
  that is not of that form.
\<close>

definition stub_encode :: "payload \<Rightarrow> string \<Rightarrow> string \<Rightarrow> string" where
  "stub_encode p key alg =
     (case p ''scope'' of Some (JStr s) \<Rightarrow> s | _ \<Rightarrow> ''none'') @ '':'' @
     (case p ''email'' of Some (JStr e) \<Rightarrow> e | _ \<Rightarrow> ''none'') @ '':'' @
     (case p ''iat'' of Some (JTime t) \<Rightarrow> replicate (nat t) CHR ''+'' | _ \<Rightarrow> ''none'')"

definition stub_decode ::
  "(string \<times> payload) list \<Rightarrow> int \<Rightarrow> string \<Rightarrow> string \<Rightarrow> string list \<Rightarrow> exn + payload" where
  "stub_decode signed now tok key algs =
     (case map_of signed tok of
        None \<Rightarrow> Inl (JWTError ''Not enough segments'')
      | Some p \<Rightarrow>
          (case p ''exp'' of
             Some (JTime e) \<Rightarrow> if e < now then Inl (JWTError ''Signature has expired.'') else Inr p
           | _ \<Rightarrow> Inr p))"

definition stub_coder :: "(string \<times> payload) list \<Rightarrow> TokenCoder" where
  "stub_coder signed =
     \<lparr> coder_encode = stub_encode, coder_decode = stub_decode signed, coder_error = is_JWTError \<rparr>"

definition stub_settings :: TokenSettings where
  "stub_settings =
     \<lparr> ALGORITHM = ''HS256'', DEFAULT_EXPIRED = 30, ACCESS_EXPIRED = 15, REFRESH_EXPIRED = 60 \<rparr>"

definition stub_claims :: "string \<Rightarrow> TokenScopes \<Rightarrow> int \<Rightarrow> payload" where
  "stub_claims e sc ttl =
     [''email'' \<mapsto> JStr e, ''iat'' \<mapsto> JTime 0, ''exp'' \<mapsto> JTime (timedelta ttl),
      ''scope'' \<mapsto> JStr (scope_value sc)]"

definition stub_signed :: "(string \<times> payload) list" where
  "stub_signed =
     [(''access_token:a@x.com:'', stub_claims ''a@x.com'' ACCESS 15),
      (''refresh_token:a@x.com:'', stub_claims ''a@x.com'' REFRESH 60),
      (''access_token:missing:'', [''iat'' \<mapsto> JTime 0, ''exp'' \<mapsto> JTime (timedelta 15),
                                   ''scope'' \<mapsto> JStr ''access_token'']),
      (''access_token:null:'', [''email'' \<mapsto> JNone, ''iat'' \<mapsto> JTime 0,
                                ''exp'' \<mapsto> JTime (timedelta 15),
                                ''scope'' \<mapsto> JStr ''access_token'']),
      (''access_token:gone@x.com:'', stub_claims ''gone@x.com'' ACCESS 15),
      (''refresh_token:missing:'', [''iat'' \<mapsto> JTime 0, ''exp'' \<mapsto> JTime (timedelta 60),
                                    ''scope'' \<mapsto> JStr ''refresh_token''])]"

definition stub_token :: Token where
  "stub_token = \<lparr> config = stub_settings, coder = stub_coder stub_signed, secret = ''s3cret'' \<rparr>"

definition stub_context :: CryptContext where
  "stub_context =
     \<lparr> ctx_verify = (\<lambda>password hash.
         if take 4 hash = ''$2b$'' then Inr (hash = ''$2b$'' @ password)
         else Inl (OtherError ''UnknownHashError'')) \<rparr>"

definition stub_auth :: Auth where
  "stub_auth = \<lparr> auth_password = \<lparr> pwd_context = stub_context \<rparr>, auth_token = stub_token \<rparr>"

definition alice :: User where
  "alice = \<lparr> uid = 1, username = ''alice'', email = ''a@x.com'', password = ''$2b$right'' \<rparr>"

definition alice_row :: TokenDBModel where
  "alice_row = \<lparr> row_refresh = ''refresh_token:a@x.com:'', row_expired_at = timedelta 60,
                 user_id = Some 1 \<rparr>"

definition stub_db :: Session where
  "stub_db = \<lparr> users = [alice], tokens = [alice_row], journal = [] \<rparr>"















text \<open>
  Settings whose TTLs are all \<open>0\<close>, and a session whose one refresh row belongs to a
  token that was signed without an \<open>email\<close> claim.
\<close>

definition zero_settings :: TokenSettings where
  "zero_settings =
     \<lparr> ALGORITHM = ''HS256'', DEFAULT_EXPIRED = 0, ACCESS_EXPIRED = 0, REFRESH_EXPIRED = 0 \<rparr>"

definition orphan_row :: TokenDBModel where
  "orphan_row = \<lparr> row_refresh = ''refresh_token:missing:'', row_expired_at = timedelta 60,
                  user_id = Some 1 \<rparr>"

definition orphan_db :: Session where
  "orphan_db = \<lparr> users = [alice], tokens = [orphan_row], journal = [] \<rparr>"

lemmas model_defs =
  decode_def decode_try_def decode_access_def decode_refresh_def create_def create_access_def
  create_refresh_def to_encode_data_def expired_def py_or_def timedelta_def
  HTTP_401_UNAUTHORIZED_def HTTP_404_NOT_FOUND_def verify_def

lemmas stub_defs =
  stub_token_def stub_coder_def stub_decode_def stub_encode_def stub_signed_def
  stub_claims_def stub_settings_def stub_context_def stub_auth_def alice_def alice_row_def
  stub_db_def orphan_row_def orphan_db_def zero_settings_def


section \<open>Properties of Token\<close>

text \<open>
  C2, as stated: every failure of \<open>Token.decode\<close> is one and the same error whatever its
  cause. With the stub coder (exception class \<open>JWTError\<close>) an undecodable token and a
  well-signed token of the other scope fail with different details, so the two causes can
  be told apart.
\<close>

theorem decode_errors_differ_counterexample:
  "decode stub_token 0 ''garbage'' ACCESS =
     Inl (HTTPException 401 ''Could not validate credentials'' None)
   \<and> decode stub_token 0 ''refresh_token:a@x.com:'' ACCESS =
     Inl (HTTPException 401 ''Invalid scope for token'' None)
   \<and> decode stub_token 0 ''garbage'' ACCESS \<noteq> decode stub_token 0 ''refresh_token:a@x.com:'' ACCESS"
  by (simp add: model_defs stub_defs)

text \<open>
  C2, amended: for a coder whose exception class does not contain the scope exception (as
  \<open>JWTError\<close> does not), \<open>Token.decode\<close> raises an \<open>HTTPException\<close> with status 401 and
  detail "Could not validate credentials" when the coder's decode raises an exception of
  the coder's class, and an \<open>HTTPException\<close> with status 401 and detail "Invalid scope
  for token" when the decoded scope differs from the expected one: one status code, two
  details.
\<close>

theorem decode_failure_details:
  assumes "\<not> coder_error (coder self)
               (HTTPException HTTP_401_UNAUTHORIZED ''Invalid scope for token'' None)"
  shows "(\<forall>e. coder_decode (coder self) now tok (secret self) [ALGORITHM (config self)] = Inl e
              \<and> coder_error (coder self) e
            \<longrightarrow> decode self now tok sc =
                  Inl (HTTPException HTTP_401_UNAUTHORIZED ''Could not validate credentials'' None))
       \<and> (\<forall>p v. coder_decode (coder self) now tok (secret self) [ALGORITHM (config self)] = Inr p
              \<and> p ''scope'' = Some v \<and> v \<noteq> JStr (scope_value sc)
            \<longrightarrow> decode self now tok sc =
                  Inl (HTTPException HTTP_401_UNAUTHORIZED ''Invalid scope for token'' None))"
  using assms by (simp add: decode_def decode_try_def)

theorem decode_failure_details_witness:
  "\<not> coder_error (coder stub_token)
       (HTTPException HTTP_401_UNAUTHORIZED ''Invalid scope for token'' None)
   \<and> coder_decode (coder stub_token) 0 ''garbage'' (secret stub_token)
       [ALGORITHM (config stub_token)] = Inl (JWTError ''Not enough segments'')
   \<and> coder_error (coder stub_token) (JWTError ''Not enough segments'')
   \<and> decode stub_token 0 ''garbage'' ACCESS =
       Inl (HTTPException HTTP_401_UNAUTHORIZED ''Could not validate credentials'' None)
   \<and> (\<exists>p. coder_decode (coder stub_token) 0 ''refresh_token:a@x.com:'' (secret stub_token)
            [ALGORITHM (config stub_token)] = Inr p
          \<and> p ''scope'' = Some (JStr ''refresh_token''))
   \<and> JStr ''refresh_token'' \<noteq> JStr (scope_value ACCESS)
   \<and> decode stub_token 0 ''refresh_token:a@x.com:'' ACCESS =
       Inl (HTTPException HTTP_401_UNAUTHORIZED ''Invalid scope for token'' None)"
proof -
  have h: "\<not> coder_error (coder stub_token)
       (HTTPException HTTP_401_UNAUTHORIZED ''Invalid scope for token'' None)"
    by (simp add: stub_defs)
  have g: "coder_decode (coder stub_token) 0 ''garbage'' (secret stub_token)
       [ALGORITHM (config stub_token)] = Inl (JWTError ''Not enough segments'')"
    by (simp add: stub_defs)
  have ge: "coder_error (coder stub_token) (JWTError ''Not enough segments'')"
    by (simp add: stub_defs)
  have r: "coder_decode (coder stub_token) 0 ''refresh_token:a@x.com:'' (secret stub_token)
            [ALGORITHM (config stub_token)] = Inr (stub_claims ''a@x.com'' REFRESH 60)"
    by (simp add: stub_defs timedelta_def)
  have rs: "stub_claims ''a@x.com'' REFRESH 60 ''scope'' = Some (JStr ''refresh_token'')"
    by (simp add: stub_defs)
  from decode_failure_details [OF h, of 0 "''garbage''" ACCESS] g ge
  have 1: "decode stub_token 0 ''garbage'' ACCESS =
       Inl (HTTPException HTTP_401_UNAUTHORIZED ''Could not validate credentials'' None)"
    by blast
  from decode_failure_details [OF h, of 0 "''refresh_token:a@x.com:''" ACCESS] r rs
  have 2: "decode stub_token 0 ''refresh_token:a@x.com:'' ACCESS =
       Inl (HTTPException HTTP_401_UNAUTHORIZED ''Invalid scope for token'' None)"
    by simp
  show ?thesis using h g ge r rs 1 2 by simp
qed

text \<open>
  C4: a token made by \<open>Token.create\<close> is the encoding of claims whose \<open>scope\<close> entry is
  the value of the scope it was created for, one of \<open>access_token\<close> and
  \<open>refresh_token\<close>. Verifying it against the other scope fails with an \<open>HTTPException\<close>
  of status 401, both when the coder rejects the token with an exception of its class and
  when the coder accepts it (signature valid, not expired) and returns the scope entry
  that was signed.
\<close>

theorem issued_token_fails_other_scope:
  assumes "other \<noteq> sc"
    and "tok = token (create self now data sc expires_delta)"
    and "(\<exists>e. coder_decode (coder self) now' tok (secret self) [ALGORITHM (config self)] = Inl e
              \<and> coder_error (coder self) e)
         \<or> (\<exists>p. coder_decode (coder self) now' tok (secret self) [ALGORITHM (config self)] = Inr p
              \<and> p ''scope'' = to_encode_data self now data sc expires_delta ''scope'')"
  shows "tok = coder_encode (coder self) (to_encode_data self now data sc expires_delta)
                 (secret self) (ALGORITHM (config self))
       \<and> to_encode_data self now data sc expires_delta ''scope'' = Some (JStr (scope_value sc))
       \<and> scope (create self now data sc expires_delta) = scope_value sc
       \<and> scope_value sc \<in> {''access_token'', ''refresh_token''}
       \<and> (\<exists>d. decode self now' tok other = Inl (HTTPException HTTP_401_UNAUTHORIZED d None)
              \<and> d \<in> {''Invalid scope for token'', ''Could not validate credentials''})"
proof -
  have v: "scope_value other \<noteq> scope_value sc"
    using assms(1) by (cases other; cases sc) simp_all
  have s: "to_encode_data self now data sc expires_delta ''scope'' = Some (JStr (scope_value sc))"
    by (simp add: to_encode_data_def)
  have m: "scope_value sc \<in> {''access_token'', ''refresh_token''}"
    by (cases sc) simp_all
  have d: "\<exists>d. decode self now' tok other = Inl (HTTPException HTTP_401_UNAUTHORIZED d None)
              \<and> d \<in> {''Invalid scope for token'', ''Could not validate credentials''}"
    using assms(3) v by (auto simp: decode_def decode_try_def s)
  show ?thesis using s m d assms(2) by (simp add: create_def)
qed

theorem issued_token_fails_other_scope_witness:
  "ACCESS \<noteq> REFRESH
   \<and> (\<exists>p. coder_decode (coder stub_token) 5 ''refresh_token:a@x.com:'' (secret stub_token)
            [ALGORITHM (config stub_token)] = Inr p
          \<and> p ''scope'' =
              to_encode_data stub_token 0 [''email'' \<mapsto> JStr ''a@x.com''] REFRESH (Some 60) ''scope'')
   \<and> token (create stub_token 0 [''email'' \<mapsto> JStr ''a@x.com''] REFRESH (Some 60)) =
       ''refresh_token:a@x.com:''
   \<and> (\<exists>d. decode stub_token 5 ''refresh_token:a@x.com:'' ACCESS =
            Inl (HTTPException HTTP_401_UNAUTHORIZED d None))"
proof -
  have t: "''refresh_token:a@x.com:'' =
      token (create stub_token 0 [''email'' \<mapsto> JStr ''a@x.com''] REFRESH (Some 60))"
    by (simp add: model_defs stub_defs)
  have c: "\<exists>p. coder_decode (coder stub_token) 5 ''refresh_token:a@x.com:'' (secret stub_token)
            [ALGORITHM (config stub_token)] = Inr p
          \<and> p ''scope'' =
              to_encode_data stub_token 0 [''email'' \<mapsto> JStr ''a@x.com''] REFRESH (Some 60) ''scope''"
    by (simp add: model_defs stub_defs)
  have n: "ACCESS \<noteq> REFRESH" by simp
  from issued_token_fails_other_scope [OF n t disjI2 [OF c]] n t c
  show ?thesis by auto
qed



text \<open>
  C10, as stated: an \<open>expires_delta\<close> of \<open>0\<close> never yields a token that expires
  immediately. With settings whose scope default and \<open>DEFAULT_EXPIRED\<close> are both \<open>0\<close>,
  the token expires at the very instant of issue.
\<close>

theorem create_zero_defaults_counterexample:
  "expired_at (create_access \<lparr> config = zero_settings, coder = stub_coder [], secret = ''s3cret'' \<rparr>
                 7 Map.empty (Some 0)) = 7
   \<and> expired_at (create_refresh \<lparr> config = zero_settings, coder = stub_coder [], secret = ''s3cret'' \<rparr>
                   7 Map.empty (Some 0)) = 7"
  by (simp add: model_defs zero_settings_def)

text \<open>
  C10, amended: \<open>create_access\<close> and \<open>create_refresh\<close> called with \<open>expires_delta\<close>
  equal to \<open>0\<close> (or \<open>None\<close>) expire the token at the instant of issue plus
  \<open>ACCESS_EXPIRED\<close> (\<open>REFRESH_EXPIRED\<close>) minutes, or plus \<open>DEFAULT_EXPIRED\<close> minutes
  when that setting is itself \<open>0\<close>, a minute being 60,000,000 microseconds; the same
  instant is the \<open>exp\<close> claim that is encoded. The token expires strictly after the
  instant of issue exactly when the TTL so chosen is positive.
\<close>

theorem create_falsy_expires_delta:
  assumes "expires_delta = None \<or> expires_delta = Some 0"
    and "ttl_a = (if ACCESS_EXPIRED (config self) \<noteq> 0 then ACCESS_EXPIRED (config self)
                  else DEFAULT_EXPIRED (config self))"
    and "ttl_r = (if REFRESH_EXPIRED (config self) \<noteq> 0 then REFRESH_EXPIRED (config self)
                  else DEFAULT_EXPIRED (config self))"
  shows "create_access self now data expires_delta =
           \<lparr> token = coder_encode (coder self)
                       (data(''iat'' \<mapsto> JTime now, ''exp'' \<mapsto> JTime (now + ttl_a * 60000000),
                             ''scope'' \<mapsto> JStr ''access_token''))
                       (secret self) (ALGORITHM (config self)),
             expired_at = now + ttl_a * 60000000,
             scope = ''access_token'' \<rparr>
       \<and> create_refresh self now data expires_delta =
           \<lparr> token = coder_encode (coder self)
                       (data(''iat'' \<mapsto> JTime now, ''exp'' \<mapsto> JTime (now + ttl_r * 60000000),
                             ''scope'' \<mapsto> JStr ''refresh_token''))
                       (secret self) (ALGORITHM (config self)),
             expired_at = now + ttl_r * 60000000,
             scope = ''refresh_token'' \<rparr>
       \<and> (now < expired_at (create_access self now data expires_delta) \<longleftrightarrow> 0 < ttl_a)
       \<and> (now < expired_at (create_refresh self now data expires_delta) \<longleftrightarrow> 0 < ttl_r)"
  using assms
  by (auto simp: create_access_def create_refresh_def create_def to_encode_data_def expired_def
        py_or_def timedelta_def)

theorem create_falsy_expires_delta_witness:
  "expired_at (create_access stub_token 7 Map.empty (Some 0)) = 900000007
   \<and> expired_at (create_refresh stub_token 7 Map.empty (Some 0)) = 3600000007
   \<and> expired_at (create_access (stub_token\<lparr> config := stub_settings\<lparr> ACCESS_EXPIRED := 0 \<rparr> \<rparr>)
                   7 Map.empty (Some 0)) = 1800000007
   \<and> expired_at (create_access (stub_token\<lparr> config := zero_settings \<rparr>) 7 Map.empty None) = 7"
proof -
  note r1 = create_falsy_expires_delta [OF disjI2 [OF refl] refl refl, of stub_token 7 Map.empty]
  note r2 = create_falsy_expires_delta [OF disjI2 [OF refl] refl refl,
          of "stub_token\<lparr> config := stub_settings\<lparr> ACCESS_EXPIRED := 0 \<rparr> \<rparr>" 7 Map.empty]
  note r3 = create_falsy_expires_delta [OF disjI1 [OF refl] refl refl,
          of "stub_token\<lparr> config := zero_settings \<rparr>" 7 Map.empty]
  from r1 have 1: "expired_at (create_access stub_token 7 Map.empty (Some 0)) = 900000007"
    by (simp add: stub_token_def stub_settings_def)
  from r1 have 2: "expired_at (create_refresh stub_token 7 Map.empty (Some 0)) = 3600000007"
    by (simp add: stub_token_def stub_settings_def)
  from r2 have 3: "expired_at (create_access
      (stub_token\<lparr> config := stub_settings\<lparr> ACCESS_EXPIRED := 0 \<rparr> \<rparr>) 7 Map.empty (Some 0)) =
      1800000007"
    by (simp add: stub_token_def stub_settings_def)
  from r3 have 4: "expired_at (create_access (stub_token\<lparr> config := zero_settings \<rparr>)
      7 Map.empty None) = 7"
    by (simp add: stub_token_def zero_settings_def)
  show ?thesis
    by (intro conjI) (rule 1 2 3 4)+
qed

section \<open>Properties of Password\<close>

text \<open>
  C7, as stated: \<open>Password.verify\<close> returns a boolean for every digest and never raises.
  The method hands the call to the injected context and catches nothing; with a context
  that raises on a string it cannot identify as a digest, so does \<open>verify\<close>.
\<close>

theorem verify_raises_counterexample:
  "verify \<lparr> pwd_context = stub_context \<rparr> ''right'' ''not-a-digest''
     = Inl (OtherError ''UnknownHashError'')"
  by (simp add: verify_def stub_context_def)

text \<open>
  C7, amended: \<open>Password.verify\<close> returns the boolean the injected context's \<open>verify\<close>
  returns and raises the exception it raises; it returns a boolean for every digest
  exactly when the context does.
\<close>

theorem verify_follows_context:
  "(\<forall>b. ctx_verify (pwd_context self) plain digest = Inr b \<longrightarrow> verify self plain digest = Inr b)
   \<and> (\<forall>e. ctx_verify (pwd_context self) plain digest = Inl e \<longrightarrow> verify self plain digest = Inl e)"
  by (simp add: verify_def)

theorem verify_follows_context_witness:
  "ctx_verify (pwd_context \<lparr> pwd_context = stub_context \<rparr>) ''wrong'' ''$2b$right'' = Inr False
   \<and> verify \<lparr> pwd_context = stub_context \<rparr> ''wrong'' ''$2b$right'' = Inr False
   \<and> ctx_verify (pwd_context \<lparr> pwd_context = stub_context \<rparr>) ''right'' ''$2b$right'' = Inr True
   \<and> verify \<lparr> pwd_context = stub_context \<rparr> ''right'' ''$2b$right'' = Inr True
   \<and> ctx_verify (pwd_context \<lparr> pwd_context = stub_context \<rparr>) ''right'' ''not-a-digest'' =
       Inl (OtherError ''UnknownHashError'')
   \<and> verify \<lparr> pwd_context = stub_context \<rparr> ''right'' ''not-a-digest'' =
       Inl (OtherError ''UnknownHashError'')"
proof -
  let ?pw = "\<lparr> pwd_context = stub_context \<rparr>"
  have f: "ctx_verify (pwd_context ?pw) ''wrong'' ''$2b$right'' = Inr False"
    and t: "ctx_verify (pwd_context ?pw) ''right'' ''$2b$right'' = Inr True"
    and e: "ctx_verify (pwd_context ?pw) ''right'' ''not-a-digest'' =
              Inl (OtherError ''UnknownHashError'')"
    by (simp_all add: stub_context_def)
  from f verify_follows_context [of ?pw "''wrong''" "''$2b$right''"]
  have 1: "verify ?pw ''wrong'' ''$2b$right'' = Inr False"
    by blast
  from t verify_follows_context [of ?pw "''right''" "''$2b$right''"]
  have 2: "verify ?pw ''right'' ''$2b$right'' = Inr True"
    by blast
  from e verify_follows_context [of ?pw "''right''" "''not-a-digest''"]
  have 3: "verify ?pw ''right'' ''not-a-digest'' = Inl (OtherError ''UnknownHashError'')"
    by blast
  show ?thesis
    by (intro conjI) (rule f t e 1 2 3)+
qed

section \<open>Properties of Auth\<close>

text \<open>
  C5: \<open>Auth.authenticate\<close> raises \<open>invalid_credential_error\<close>, the same exception, and
  leaves the session as it was, both when no user has the given name or e-mail and when
  the user exists and \<open>Password.verify\<close> returns \<open>False\<close>.
\<close>

theorem authenticate_invalid_credentials:
  assumes "get_user (JStr (form_username credentials)) db = None
           \<or> (\<exists>u. get_user (JStr (form_username credentials)) db = Some u
                  \<and> verify (auth_password self) (form_password credentials) (password u)
                      = Inr False)"
  shows "authenticate self now_a now_r credentials db = (Inl invalid_credential_error, db)"
  using assms by (auto simp: authenticate_def validate_def)

theorem authenticate_invalid_credentials_witness:
  "get_user (JStr (form_username \<lparr> form_username = ''bob'', form_password = ''right'' \<rparr>)) stub_db
     = None
   \<and> authenticate stub_auth 0 0 \<lparr> form_username = ''bob'', form_password = ''right'' \<rparr> stub_db =
       (Inl invalid_credential_error, stub_db)
   \<and> get_user (JStr (form_username \<lparr> form_username = ''alice'', form_password = ''wrong'' \<rparr>))
       stub_db = Some alice
   \<and> verify (auth_password stub_auth)
       (form_password \<lparr> form_username = ''alice'', form_password = ''wrong'' \<rparr>) (password alice)
       = Inr False
   \<and> authenticate stub_auth 0 0 \<lparr> form_username = ''alice'', form_password = ''wrong'' \<rparr> stub_db =
       (Inl invalid_credential_error, stub_db)"
proof -
  let ?bob = "\<lparr> form_username = ''bob'', form_password = ''right'' \<rparr>"
  let ?al = "\<lparr> form_username = ''alice'', form_password = ''wrong'' \<rparr>"
  have b: "get_user (JStr (form_username ?bob)) stub_db = None"
    by (simp add: get_user_def stub_defs)
  have a: "get_user (JStr (form_username ?al)) stub_db = Some alice"
    by (simp add: get_user_def stub_defs)
  have v: "verify (auth_password stub_auth) (form_password ?al) (password alice) = Inr False"
    by (simp add: verify_def stub_defs)
  from a v have av: "\<exists>u. get_user (JStr (form_username ?al)) stub_db = Some u
      \<and> verify (auth_password stub_auth) (form_password ?al) (password u) = Inr False"
    by simp
  show ?thesis
    using b a v authenticate_invalid_credentials [OF disjI1 [OF b], of stub_auth 0 0]
      authenticate_invalid_credentials [OF disjI2 [OF av], of 0 0]
    by simp
qed

text \<open>
  C6: when \<open>decode_access\<close> accepts the token, its \<open>email\<close> claim is present and not
  \<open>None\<close>, and no user has that name or e-mail, \<open>Auth.__call__\<close> raises
  \<open>not_found_error\<close> (status 404, "User not found"), which is neither
  \<open>credentionals_exception\<close> nor any exception of status 401. A token that
  \<open>decode_access\<close> rejects fails with the exception of the decode, before any lookup.
\<close>

theorem call_user_not_found:
  assumes "decode_access (auth_token self) now tok = Inr pyload"
    and "pyload ''email'' = Some name"
    and "name \<noteq> JNone"
    and "get_user name db = None"
  shows "call self now tok db = Inl not_found_error
       \<and> not_found_error = HTTPException HTTP_404_NOT_FOUND ''User not found'' None
       \<and> not_found_error \<noteq> credentionals_exception
       \<and> status_code not_found_error \<noteq> HTTP_401_UNAUTHORIZED
       \<and> (\<forall>tok' e. decode_access (auth_token self) now tok' = Inl e
              \<longrightarrow> call self now tok' db = Inl e)"
  using assms
  by (simp add: call_def not_found_error_def credentionals_exception_def
        HTTP_401_UNAUTHORIZED_def HTTP_404_NOT_FOUND_def)

theorem call_user_not_found_witness:
  "decode_access (auth_token stub_auth) 0 ''access_token:gone@x.com:'' =
     Inr (stub_claims ''gone@x.com'' ACCESS 15)
   \<and> stub_claims ''gone@x.com'' ACCESS 15 ''email'' = Some (JStr ''gone@x.com'')
   \<and> JStr ''gone@x.com'' \<noteq> JNone
   \<and> get_user (JStr ''gone@x.com'') stub_db = None
   \<and> call stub_auth 0 ''access_token:gone@x.com:'' stub_db = Inl not_found_error
   \<and> decode_access (auth_token stub_auth) 0 ''garbage'' =
       Inl (HTTPException HTTP_401_UNAUTHORIZED ''Could not validate credentials'' None)
   \<and> call stub_auth 0 ''garbage'' stub_db =
       Inl (HTTPException HTTP_401_UNAUTHORIZED ''Could not validate credentials'' None)"
proof -
  have x: "decode_access (auth_token stub_auth) 0 ''garbage'' =
       Inl (HTTPException HTTP_401_UNAUTHORIZED ''Could not validate credentials'' None)"
    by (simp add: model_defs stub_defs)
  have d: "decode_access (auth_token stub_auth) 0 ''access_token:gone@x.com:'' =
     Inr (stub_claims ''gone@x.com'' ACCESS 15)"
    by (simp add: model_defs stub_defs)
  have e: "stub_claims ''gone@x.com'' ACCESS 15 ''email'' = Some (JStr ''gone@x.com'')"
    by (simp add: stub_defs)
  have n: "JStr ''gone@x.com'' \<noteq> JNone" by simp
  have g: "get_user (JStr ''gone@x.com'') stub_db = None"
    by (simp add: get_user_def stub_defs)
  note r = call_user_not_found [OF d e n g]
  from r have 1: "call stub_auth 0 ''access_token:gone@x.com:'' stub_db = Inl not_found_error"
    by (rule conjunct1)
  from r x have 2: "call stub_auth 0 ''garbage'' stub_db =
       Inl (HTTPException HTTP_401_UNAUTHORIZED ''Could not validate credentials'' None)"
    by blast
  show ?thesis
    by (intro conjI) (rule d e n g x 1 2)+
qed

text \<open>
  C8: the stub coder accepts both tokens below as access tokens. For the one whose
  \<open>email\<close> claim is \<open>None\<close>, \<open>Auth.__call__\<close> raises \<open>credentionals_exception\<close>; for the
  one that has no \<open>email\<close> claim, the subscript \<open>pyload["email"]\<close> raises \<open>KeyError\<close>
  before the test for \<open>None\<close> is reached.
\<close>

theorem call_missing_email_raises_KeyError:
  "decode_access (auth_token stub_auth) 0 ''access_token:null:'' =
     Inr [''email'' \<mapsto> JNone, ''iat'' \<mapsto> JTime 0, ''exp'' \<mapsto> JTime (timedelta 15),
          ''scope'' \<mapsto> JStr ''access_token'']
   \<and> call stub_auth 0 ''access_token:null:'' stub_db = Inl credentionals_exception
   \<and> decode_access (auth_token stub_auth) 0 ''access_token:missing:'' =
     Inr [''iat'' \<mapsto> JTime 0, ''exp'' \<mapsto> JTime (timedelta 15), ''scope'' \<mapsto> JStr ''access_token'']
   \<and> call stub_auth 0 ''access_token:missing:'' stub_db = Inl (KeyError ''email'')"
  by (simp add: call_def model_defs stub_defs)

text \<open>The same two paths for any token and any coder.\<close>

lemma call_null_email:
  assumes "decode_access (auth_token self) now tok = Inr pyload"
    and "pyload ''email'' = Some JNone"
  shows "call self now tok db = Inl credentionals_exception"
  using assms by (simp add: call_def)

lemma call_no_email:
  assumes "decode_access (auth_token self) now tok = Inr pyload"
    and "pyload ''email'' = None"
  shows "call self now tok db = Inl (KeyError ''email'')"
  using assms by (simp add: call_def)

text \<open>
  C1: the stub session holds one refresh row, owned by the user the token names. A first
  \<open>Auth.refresh\<close> redeems it and issues a new pair; the row of the old token string is
  gone. A second \<open>refresh\<close> with the old string then raises \<open>credentionals_exception\<close>
  ("Could not validate credentials", with the \<open>WWW-Authenticate\<close> header), not
  \<open>invalid_refresh_token_error\<close> ("Invalid refresh token"), which the class declares and
  never raises.
\<close>

theorem refresh_consumed_record_raises_credentionals_exception:
  "fst (refresh stub_auth 0 1 1 ''refresh_token:a@x.com:'' stub_db) =
     Inr \<lparr> pair_access = \<lparr> ref_token = ''access_token:a@x.com:+'',
                             ref_expired_at = 1 + timedelta 15 \<rparr>,
           pair_refresh = \<lparr> ref_token = ''refresh_token:a@x.com:+'',
                              ref_expired_at = 1 + timedelta 60 \<rparr>,
           pair_type = ''bearer'' \<rparr>
   \<and> find_token ''refresh_token:a@x.com:''
         (snd (refresh stub_auth 0 1 1 ''refresh_token:a@x.com:'' stub_db)) = None
   \<and> fst (refresh stub_auth 2 3 3 ''refresh_token:a@x.com:''
            (snd (refresh stub_auth 0 1 1 ''refresh_token:a@x.com:'' stub_db))) =
       Inl (HTTPException 401 ''Could not validate credentials''
              (Some [(''WWW-Authenticate'', ''Bearer'')]))
   \<and> invalid_refresh_token_error = HTTPException 401 ''Invalid refresh token'' None"
  by (simp add: refresh_def find_token_def get_user_def generate_tokens_def db_commit_def
        db_delete_def tokens_append_def credentionals_exception_def
        invalid_refresh_token_error_def model_defs stub_defs)

text \<open>
  The three failing outcomes of the final test of \<open>refresh\<close>, for any token and coder:
  all raise \<open>credentionals_exception\<close>.
\<close>

lemma refresh_final_checks:
  assumes "decode_refresh (auth_token self) now_d s = Inr payload"
    and "payload ''email'' = Some name"
    and "get_user name db = None \<or> find_token s db = None
         \<or> (\<exists>u r. get_user name db = Some u \<and> find_token s db = Some r
                  \<and> user_id r \<noteq> Some (uid u))"
  shows "fst (refresh self now_d now_a now_r s db) = Inl credentionals_exception"
  using assms by (auto simp: refresh_def split: option.splits)




end
